theory Spec2Isabelle
  imports Complex_Main "HOL-Library.AList"
begin

section \<open>JavaScript values\<close>

text \<open>
  The command-line tool (\<^verbatim>\<open>codeant-demo.js\<close>, class \<^verbatim>\<open>CodeAntCLI\<close>) and the service
  (\<^verbatim>\<open>src/services/codeantAI.js\<close>, class \<^verbatim>\<open>CodeAntAI\<close>) are embedded as HOL functions.
  JavaScript numbers are modelled as reals. The numbers of the tool are decimal
  literals. The mock values of the service are floors of the product of a draw and a
  constant: the model takes the floor of the exact product, where JavaScript first rounds
  the product to a double, so for a draw next to a boundary the value of the model and
  that of the code can differ by one. No statement below depends on such a value.
  An object is an association list from property names to values; reading a property
  that is not there gives \<open>None\<close> (JavaScript's \<^verbatim>\<open>undefined\<close>). The order of
  the properties of an object is not part of any statement below: objects are compared
  through their properties (\<open>map_of\<close>) or built by the same expression on both sides.
\<close>

type_synonym number = real

datatype json =
    JNull
  | JBool bool
  | JNum number
  | JStr string
  | JArr "json list"
  | JObj "(string \<times> json) list"

type_synonym obj = "(string \<times> json) list"

datatype error =
    Error string
  | TypeError string
  | SyntaxError string

fun error_message :: "error \<Rightarrow> string" where
  "error_message (Error m) = m"
| "error_message (TypeError m) = m"
| "error_message (SyntaxError m) = m"

text \<open>\<^verbatim>\<open>x ? a : b\<close>, \<^verbatim>\<open>x || y\<close>: the truthiness of a value that may be undefined.\<close>

fun truthy :: "json option \<Rightarrow> bool" where
  "truthy None = False"
| "truthy (Some JNull) = False"
| "truthy (Some (JBool b)) = b"
| "truthy (Some (JNum n)) = (n \<noteq> 0)"
| "truthy (Some (JStr s)) = (s \<noteq> [])"
| "truthy (Some (JArr xs)) = True"
| "truthy (Some (JObj kvs)) = True"

text \<open>
  \<^verbatim>\<open>o[key] = value\<close> on a plain object, for a value that is a string or a boolean (the only
  assignments of the tool). The key \<^verbatim>\<open>__proto__\<close> reaches the setter of
  \<^verbatim>\<open>Object.prototype\<close>, which ignores a value that is neither an object nor null: no
  property is created.
\<close>

definition assign :: "string \<Rightarrow> json \<Rightarrow> obj \<Rightarrow> obj" where
  "assign key v ob = (if key = ''__proto__'' then ob else AList.update key v ob)"

text \<open>
  \<^verbatim>\<open>{ ...a, ...b }\<close>: the own properties of \<open>a\<close>, then those of \<open>b\<close>, a later
  property replacing an earlier one of the same name.
\<close>

definition spread :: "obj \<Rightarrow> obj \<Rightarrow> obj" where
  "spread a b = foldl (\<lambda>acc kv. AList.update (fst kv) (snd kv) acc) a b"

text \<open>
  \<^verbatim>\<open>config.key\<close> for the keys the tool reads from a parsed file (\<^verbatim>\<open>connected\<close>,
  \<^verbatim>\<open>repository\<close>): a TypeError on null, the property of an object, undefined on
  any other value (the built-in properties of strings and arrays have other names).
\<close>

fun get_prop :: "json \<Rightarrow> string \<Rightarrow> error + json option" where
  "get_prop JNull k = Inl (TypeError (''Cannot read properties of null (reading '' @ k @ '')''))"
| "get_prop (JObj kvs) k = Inr (map_of kvs k)"
| "get_prop v k = Inr None"

section \<open>Dates\<close>

text \<open>
  \<^verbatim>\<open>new Date()\<close> is modelled by the UTC fields of the instant it reads, \<^verbatim>\<open>Date.now()\<close>
  by the milliseconds it returns. \<^verbatim>\<open>toISOString\<close> prints
  \<^verbatim>\<open>YYYY-MM-DDTHH:mm:ss.sssZ\<close>, the year with six digits and a sign beyond 9999.
\<close>

record date =
  year :: nat
  month :: nat
  day :: nat
  hours :: nat
  minutes :: nat
  seconds :: nat
  milliseconds :: nat

fun show_nat :: "nat \<Rightarrow> string" where
  "show_nat n =
     (if n < 10 then [char_of (48 + n)]
      else show_nat (n div 10) @ [char_of (48 + n mod 10)])"

declare show_nat.simps [simp del]

definition show_int :: "int \<Rightarrow> string" where
  "show_int i = (if i < 0 then ''-'' @ show_nat (nat (- i)) else show_nat (nat i))"

definition pad :: "nat \<Rightarrow> string \<Rightarrow> string" where
  "pad w s = replicate (w - length s) (CHR ''0'') @ s"

definition toISOString :: "date \<Rightarrow> string" where
  "toISOString d =
     (if year d \<le> 9999 then pad 4 (show_nat (year d)) else ''+'' @ pad 6 (show_nat (year d)))
     @ ''-'' @ pad 2 (show_nat (month d))
     @ ''-'' @ pad 2 (show_nat (day d))
     @ ''T'' @ pad 2 (show_nat (hours d))
     @ '':'' @ pad 2 (show_nat (minutes d))
     @ '':'' @ pad 2 (show_nat (seconds d))
     @ ''.'' @ pad 3 (show_nat (milliseconds d))
     @ ''Z''"

section \<open>The command-line tool: files and configuration\<close>

text \<open>
  The file system is a map from file names, relative to the project root, to texts. A
  text is either the serialisation of a value (what \<^verbatim>\<open>JSON.stringify\<close> wrote, or any
  text that \<^verbatim>\<open>JSON.parse\<close> reads as that value) or a text that \<^verbatim>\<open>JSON.parse\<close>
  rejects. A failing write is not modelled.
\<close>

datatype file_text =
    Serialized json
  | Malformed string

type_synonym fs = "string \<Rightarrow> file_text option"

fun JSON_parse :: "file_text \<Rightarrow> error + json" where
  "JSON_parse (Serialized v) = Inr v"
| "JSON_parse (Malformed s) = Inl (SyntaxError ''Unexpected token in JSON'')"

definition configFile :: string where
  "configFile = ''codeant.config.json''"

definition writeFileSync :: "string \<Rightarrow> json \<Rightarrow> fs \<Rightarrow> fs" where
  "writeFileSync file v files = files(file \<mapsto> Serialized v)"

definition defaultConfig :: obj where
  "defaultConfig =
     [(''projectName'', JStr ''FER-PE''),
      (''repository'', JStr ''github.com/MyNameIsBof/lab3''),
      (''language'', JStr ''javascript''),
      (''framework'', JStr ''react''),
      (''excludePaths'', JArr [JStr ''node_modules'', JStr ''dist'', JStr ''.git'']),
      (''rules'', JObj
         [(''security'', JBool True),
          (''quality'', JBool True),
          (''performance'', JBool True),
          (''accessibility'', JBool True)]),
      (''thresholds'', JObj
         [(''securityScore'', JNum 8),
          (''qualityScore'', JNum 7),
          (''maxVulnerabilities'', JNum 0)])]"

text \<open>
  Every operation returns its outcome (an error for a thrown exception) together with
  the file system it leaves behind. Console output is modelled where a statement below
  is about it (the scan and the analysis); pictographs are left out of the printed texts.
\<close>

type_synonym 'a outcome = "(error + 'a) \<times> fs"

subsection \<open>parseOptions\<close>

definition startsWith :: "string \<Rightarrow> string \<Rightarrow> bool" where
  "startsWith s p = (take (length p) s = p)"

text \<open>
  \<^verbatim>\<open>for (let i = 0; i < args.length; i += 2)\<close>: the index moves by two whether or not
  the token at \<open>i\<close> was a flag. \<^verbatim>\<open>args[i + 1] || true\<close> is \<open>true\<close> when there is no
  such token and when it is the empty string.
\<close>

function parseOptions_from :: "nat \<Rightarrow> string list \<Rightarrow> obj \<Rightarrow> obj" where
  "parseOptions_from i args options =
     (if i < length args then
        parseOptions_from (i + 2) args
          (if startsWith (args ! i) ''--'' then
             (let key = drop 2 (args ! i);
                  v = (if i + 1 < length args \<and> args ! (i + 1) \<noteq> []
                       then JStr (args ! (i + 1)) else JBool True)
              in assign key v options)
           else options)
      else options)"
  by pat_completeness auto
termination
  by (relation "measure (\<lambda>(i, args, options). length args - i)") auto

declare parseOptions_from.simps [simp del]

definition parseOptions :: "string list \<Rightarrow> obj" where
  "parseOptions args = parseOptions_from 0 args []"

subsection \<open>init and connect\<close>

definition initProject :: "obj \<Rightarrow> fs \<Rightarrow> unit outcome" where
  "initProject options files =
     (let config = spread defaultConfig options
      in (Inr (), writeFileSync configFile (JObj config) files))"

definition not_initialized :: string where
  \<open>not_initialized = ''Project not initialized. Run "init" first.''\<close>

definition not_connected :: string where
  \<open>not_connected = ''Repository not connected. Run "connect" first.''\<close>

text \<open>
  \<^verbatim>\<open>config.connected = true; config.connectedAt = ...\<close> and the serialisation of the
  result. The file is a module, so the code is strict: the assignment throws on null, a
  boolean, a number or a string. On an array it creates a property that
  \<^verbatim>\<open>JSON.stringify\<close> does not print.
\<close>

fun mark_connected :: "json \<Rightarrow> string \<Rightarrow> error + json" where
  "mark_connected (JObj kvs) stamp =
     Inr (JObj (AList.update ''connectedAt'' (JStr stamp)
                  (AList.update ''connected'' (JBool True) kvs)))"
| "mark_connected (JArr xs) stamp = Inr (JArr xs)"
| "mark_connected JNull stamp =
     Inl (TypeError ''Cannot set properties of null (setting connected)'')"
| "mark_connected v stamp = Inl (TypeError ''Cannot create property connected'')"

text \<open>
  \<^verbatim>\<open>options.repo || config.repository\<close> reads the configuration only when the option
  is not truthy. The repository is printed and nothing else; the delays and the printed
  lines between the reading and the update are left out.
\<close>

definition connectRepository :: "obj \<Rightarrow> date \<Rightarrow> fs \<Rightarrow> unit outcome" where
  "connectRepository options now files =
     (case files configFile of
        None \<Rightarrow> (Inl (Error not_initialized), files)
      | Some text \<Rightarrow>
          (case JSON_parse text of
             Inl e \<Rightarrow> (Inl e, files)
           | Inr config \<Rightarrow>
               (case (if truthy (map_of options ''repo'') then Inr (map_of options ''repo'')
                      else get_prop config ''repository'') of
                  Inl e \<Rightarrow> (Inl e, files)
                | Inr repository \<Rightarrow>
                    (case mark_connected config (toISOString now) of
                       Inl e \<Rightarrow> (Inl e, files)
                     | Inr config' \<Rightarrow> (Inr (), writeFileSync configFile config' files)))))"

subsection \<open>The gate\<close>

definition isProjectConnected :: "fs \<Rightarrow> error + bool" where
  "isProjectConnected files =
     (case files configFile of
        None \<Rightarrow> Inr False
      | Some text \<Rightarrow>
          (case JSON_parse text of
             Inl e \<Rightarrow> Inl e
           | Inr config \<Rightarrow>
               (case get_prop config ''connected'' of
                  Inl e \<Rightarrow> Inl e
                | Inr c \<Rightarrow> Inr (c = Some (JBool True)))))"

subsection \<open>scan and analyze\<close>

text \<open>
  What \<^verbatim>\<open>runScan\<close> and \<^verbatim>\<open>analyzeCode\<close> print is kept in a structured form: for
  each pass of the loop the category value and the lines the \<^verbatim>\<open>switch\<close> printed for
  it, then the closing lines. The \<^verbatim>\<open>switch\<close> compares with \<^verbatim>\<open>===\<close>, so only a
  string can match a \<^verbatim>\<open>case\<close>.
\<close>

record console =
  sections :: "(json \<times> string list) list"
  closing :: "string list"

fun scan_findings :: "json \<Rightarrow> string list" where
  "scan_findings (JStr t) =
     (if t = ''dependencies'' then
        [''All dependencies up to date'', ''11 production dependencies checked'']
      else if t = ''vulnerabilities'' then
        [''1 medium severity vulnerability found'', ''CVE-2024-1234 in axios package'',
         ''Fix available: Update to axios@1.7.0'']
      else if t = ''secrets'' then
        [''No exposed secrets detected'', ''API keys properly secured in .env'']
      else [])"
| "scan_findings v = []"

definition gate :: "fs \<Rightarrow> error + unit" where
  "gate files =
     (case isProjectConnected files of
        Inl e \<Rightarrow> Inl e
      | Inr ok \<Rightarrow> if \<not> ok then Inl (Error not_connected) else Inr ())"

definition runScan :: "obj \<Rightarrow> fs \<Rightarrow> console outcome" where
  "runScan options files =
     (case gate files of
        Inl e \<Rightarrow> (Inl e, files)
      | Inr _ \<Rightarrow>
          (let scanTypes =
                 (case map_of options ''type'' of
                    Some t \<Rightarrow>
                      if truthy (Some t) then [t]
                      else [JStr ''dependencies'', JStr ''vulnerabilities'', JStr ''secrets'']
                  | None \<Rightarrow>
                      [JStr ''dependencies'', JStr ''vulnerabilities'', JStr ''secrets''])
           in (Inr \<lparr>sections = map (\<lambda>scanType. (scanType, scan_findings scanType)) scanTypes,
                    closing =
                      [''Security Scan Summary:'', ''Security Score: 8.5/10'',
                       ''Vulnerabilities: 1 medium'', ''Secrets: 0 exposed'',
                       ''Recommendations: 2 available'']
                      @ (if truthy (map_of options ''fix'')
                         then [''Auto-fixing issues...'', ''Security issues resolved automatically'']
                         else [])\<rparr>,
               files)))"

fun analysis_findings :: "json \<Rightarrow> string list" where
  "analysis_findings (JStr t) =
     (if t = ''quality'' then
        [''Code Quality Score: 8.2/10'', ''Maintainability Index: 85'',
         ''Cyclomatic Complexity: 3.2 (Good)'']
      else if t = ''performance'' then
        [''Performance Score: 7.8/10'', ''Bundle size: 245KB (Optimizable)'',
         ''Suggestions: Code splitting, lazy loading'']
      else if t = ''maintainability'' then
        [''Maintainability: 88/100'', ''Documentation: 65% coverage'', ''Test Coverage: 72%'']
      else if t = ''accessibility'' then
        [''Accessibility Score: 9.1/10'', ''ARIA labels: Well implemented'',
         ''Color contrast: Excellent'']
      else [])"
| "analysis_findings v = []"

definition CLI_analyzeCode :: "obj \<Rightarrow> fs \<Rightarrow> console outcome" where
  "CLI_analyzeCode options files =
     (case gate files of
        Inl e \<Rightarrow> (Inl e, files)
      | Inr _ \<Rightarrow>
          (let analysisTypes =
                 (case map_of options ''type'' of
                    Some t \<Rightarrow>
                      if truthy (Some t) then [t]
                      else [JStr ''quality'', JStr ''performance'', JStr ''maintainability'',
                            JStr ''accessibility'']
                  | None \<Rightarrow>
                      [JStr ''quality'', JStr ''performance'', JStr ''maintainability'',
                       JStr ''accessibility''])
           in (Inr \<lparr>sections =
                      map (\<lambda>analysisType. (analysisType, analysis_findings analysisType))
                        analysisTypes,
                    closing =
                      [''AI Recommendations:'', ''Add PropTypes for better type safety'',
                       ''Implement React.memo for performance'',
                       ''Add error boundaries for robustness'',
                       ''Consider adding integration tests'']\<rparr>,
               files)))"

subsection \<open>report\<close>

definition reportData :: "date \<Rightarrow> json" where
  "reportData now =
     JObj
       [(''timestamp'', JStr (toISOString now)),
        (''project'', JStr ''FER-PE''),
        (''repository'', JStr ''github.com/MyNameIsBof/lab3''),
        (''overall_score'', JNum 8.3),
        (''security'', JObj
           [(''score'', JNum 8.5), (''vulnerabilities'', JNum 1), (''severity'', JStr ''Medium'')]),
        (''quality'', JObj
           [(''score'', JNum 8.2), (''maintainability'', JNum 85), (''complexity'', JNum 3.2),
            (''test_coverage'', JNum 72)]),
        (''performance'', JObj
           [(''score'', JNum 7.8), (''bundle_size'', JStr ''245KB''), (''suggestions'', JNum 3)]),
        (''accessibility'', JObj
           [(''score'', JNum 9.1), (''compliance'', JStr ''WCAG 2.1 AA'')])]"

definition reportFile :: "int \<Rightarrow> string" where
  "reportFile ms = ''codeant-report-'' @ show_int ms @ ''.json''"

text \<open>
  \<^verbatim>\<open>generateReport(options)\<close> of the tool. \<open>now\<close> is the instant read for the
  timestamp, \<open>ms\<close> the later reading of \<^verbatim>\<open>Date.now()\<close> for the file name. The outcome
  carries the report record that was built; it is written to the report file in the
  JSON format and printed section by section otherwise.
\<close>

definition CLI_generateReport :: "obj \<Rightarrow> date \<Rightarrow> int \<Rightarrow> fs \<Rightarrow> json outcome" where
  "CLI_generateReport options now ms files =
     (case gate files of
        Inl e \<Rightarrow> (Inl e, files)
      | Inr _ \<Rightarrow>
          (if map_of options ''format'' = Some (JStr ''json'') \<or> truthy (map_of options ''json'')
           then (Inr (reportData now), writeFileSync (reportFile ms) (reportData now) files)
           else (Inr (reportData now), files)))"

subsection \<open>config, test, demo and the dispatcher\<close>

definition showConfig :: "fs \<Rightarrow> json option outcome" where
  "showConfig files =
     (case files configFile of
        None \<Rightarrow> (Inr None, files)
      | Some text \<Rightarrow>
          (case JSON_parse text of
             Inl e \<Rightarrow> (Inl e, files)
           | Inr config \<Rightarrow> (Inr (Some config), files)))"

text \<open>
  \<^verbatim>\<open>runTestCases\<close> passes the same gate and then only prints; \<^verbatim>\<open>runDemo\<close> and
  \<^verbatim>\<open>showHelp\<close> only print. Their texts are not modelled.
\<close>

definition runTestCases :: "obj \<Rightarrow> fs \<Rightarrow> unit outcome" where
  "runTestCases options files =
     (case gate files of
        Inl e \<Rightarrow> (Inl e, files)
      | Inr _ \<Rightarrow> (Inr (), files))"

definition runDemo :: "obj \<Rightarrow> fs \<Rightarrow> unit outcome" where
  "runDemo options files = (Inr (), files)"

record clock =
  date_now :: date
  ms_now :: int

text \<open>
  \<^verbatim>\<open>run(args)\<close>: the exit status of the process (1 from the \<^verbatim>\<open>catch\<close>, 0 otherwise) and
  the file system left behind. \<^verbatim>\<open>args\<close> is \<^verbatim>\<open>process.argv\<close>, the command at index 2.
\<close>

definition exit_status :: "'a outcome \<Rightarrow> nat \<times> fs" where
  "exit_status r = (case fst r of Inl e \<Rightarrow> (1, snd r) | Inr v \<Rightarrow> (0, snd r))"

definition run :: "string list \<Rightarrow> clock \<Rightarrow> fs \<Rightarrow> nat \<times> fs" where
  "run args clk files =
     (let command = (if 2 < length args \<and> args ! 2 \<noteq> [] then args ! 2 else ''help'');
          options = parseOptions (drop 3 args)
      in if command = ''init'' then exit_status (initProject options files)
         else if command = ''connect'' then
           exit_status (connectRepository options (date_now clk) files)
         else if command = ''scan'' then exit_status (runScan options files)
         else if command = ''analyze'' then exit_status (CLI_analyzeCode options files)
         else if command = ''test'' then exit_status (runTestCases options files)
         else if command = ''demo'' then exit_status (runDemo options files)
         else if command = ''report'' then
           exit_status (CLI_generateReport options (date_now clk) (ms_now clk) files)
         else if command = ''config'' then exit_status (showConfig files)
         else (0, files))"

section \<open>The service: CodeAntAI\<close>

text \<open>
  The methods of the service are asynchronous. A method that awaits is modelled by the
  value its promise resolves to. The three requests of \<^verbatim>\<open>generateReport\<close> run under
  \<^verbatim>\<open>Promise.all\<close>; each reads its own draws of \<^verbatim>\<open>Math.random()\<close>, so the model
  names the draw of every call site instead of ordering them. The draw that sets the
  timer of \<^verbatim>\<open>simulateApiCall\<close> reaches no value and is left out.
\<close>

record vulnerability =
  vuln_id :: string
  severity :: string
  package :: "string option"
  vuln_file :: "string option"
  description :: string
  vuln_fix :: string

record quality_metrics =
  maintainabilityIndex :: number
  cyclomaticComplexity :: number
  testCoverage :: number
  codeSmells :: number
  technicalDebt :: string

record analysis_results =
  totalFiles :: number
  linesOfCode :: number
  issuesFound :: number
  suggestions :: "string list"

text \<open>The \<^verbatim>\<open>data\<close> of a response, one shape for each endpoint.\<close>

datatype response_data =
    ProjectInit string string "string list"
  | AnalysisRun string analysis_results
  | SecurityScan "vulnerability list" number
  | QualityMetrics quality_metrics number

text \<open>The ambient sources the service reads: the draws of \<^verbatim>\<open>Math.random()\<close> and the clock.\<close>

record ambient =
  vulnerabilities_draw :: number
  securityScore_draw :: number
  maintainabilityIndex_draw :: number
  cyclomaticComplexity_draw :: number
  testCoverage_draw :: number
  codeSmells_draw :: number
  technicalDebt_draw :: number
  qualityScore_draw :: number
  issuesFound_draw :: number
  report_date :: date
  request_ms :: int

text \<open>
  \<^verbatim>\<open>Math.floor\<close>. Its argument is the exact product here and the rounded one in
  JavaScript (see the note on numbers at the head of the theory).
\<close>

definition Math_floor :: "number \<Rightarrow> number" where
  "Math_floor x = of_int \<lfloor>x\<rfloor>"

definition generateMockAnalysisResults :: "ambient \<Rightarrow> analysis_results" where
  "generateMockAnalysisResults amb =
     \<lparr>totalFiles = 15,
      linesOfCode = 2450,
      issuesFound = Math_floor (issuesFound_draw amb * 5) + 2,
      suggestions =
        [''Consider using React.memo for performance optimization'',
         ''Add PropTypes for better type checking'',
         ''Implement error boundaries for better error handling'']\<rparr>"

definition generateMockVulnerabilities :: "ambient \<Rightarrow> vulnerability list" where
  "generateMockVulnerabilities amb =
     (let vulnerabilities =
            [\<lparr>vuln_id = ''CVE-2024-1234'', severity = ''Medium'', package = Some ''axios'',
              vuln_file = None,
              description = ''Potential XSS vulnerability in request handling'',
              vuln_fix = ''Update to axios@1.7.0 or later''\<rparr>,
             \<lparr>vuln_id = ''CODEANT-SEC-001'', severity = ''Low'', package = None,
              vuln_file = Some ''src/components/AddStudent.jsx'',
              description = ''Missing input validation'',
              vuln_fix = ''Add input sanitization and validation''\<rparr>]
      in if vulnerabilities_draw amb > 0.5 then vulnerabilities else [])"

definition generateMockQualityMetrics :: "ambient \<Rightarrow> quality_metrics" where
  "generateMockQualityMetrics amb =
     \<lparr>maintainabilityIndex = Math_floor (maintainabilityIndex_draw amb * 20) + 80,
      cyclomaticComplexity = Math_floor (cyclomaticComplexity_draw amb * 5) + 2,
      testCoverage = Math_floor (testCoverage_draw amb * 30) + 70,
      codeSmells = Math_floor (codeSmells_draw amb * 3),
      technicalDebt = show_int (\<lfloor>technicalDebt_draw amb * 5\<rfloor> + 1) @ ''h''\<rparr>"

definition simulateApiCall :: "ambient \<Rightarrow> string \<Rightarrow> error + response_data" where
  "simulateApiCall amb endpoint =
     (if endpoint = ''/projects/init'' then
        Inr (ProjectInit (''codeant_'' @ show_int (request_ms amb)) ''initialized''
               [''security-scan'', ''quality-analysis'', ''ai-recommendations''])
      else if endpoint = ''/analysis/run'' then
        Inr (AnalysisRun (''analysis_'' @ show_int (request_ms amb))
               (generateMockAnalysisResults amb))
      else if endpoint = ''/security/scan'' then
        Inr (SecurityScan (generateMockVulnerabilities amb)
               (Math_floor (securityScore_draw amb * 3) + 8))
      else if endpoint = ''/quality/metrics'' then
        Inr (QualityMetrics (generateMockQualityMetrics amb)
               (Math_floor (qualityScore_draw amb * 2) + 8))
      else Inl (Error (''Unknown endpoint: '' @ endpoint)))"

subsection \<open>The three requests\<close>

text \<open>
  Each request reads fields of \<^verbatim>\<open>response.data\<close>; a field the response does not have
  is undefined (\<open>None\<close>). The result of a request is the object
  \<^verbatim>\<open>{ success: true, ... }\<close> or \<^verbatim>\<open>{ success: false, error }\<close> of its
  \<^verbatim>\<open>catch\<close>. The requests are stated over the function that answers an endpoint, so
  that a request that throws can be written down; the service passes its own
  \<^verbatim>\<open>simulateApiCall\<close>, which looks at the endpoint only (the second argument of the
  calls, the method and the data, is not a parameter of it).
\<close>

datatype 'a result =
    Success 'a
  | Failure string

fun success :: "'a result \<Rightarrow> bool" where
  "success (Success v) = True"
| "success (Failure m) = False"

record security_scan =
  vulnerabilities :: "vulnerability list option"
  securityScore :: "number option"

record quality_result =
  metrics :: "quality_metrics option"
  qualityScore :: "number option"

record analysis_result =
  analysisId :: "string option"
  results :: "analysis_results option"

fun data_vulnerabilities :: "response_data \<Rightarrow> vulnerability list option" where
  "data_vulnerabilities (SecurityScan vs n) = Some vs"
| "data_vulnerabilities d = None"

fun data_securityScore :: "response_data \<Rightarrow> number option" where
  "data_securityScore (SecurityScan vs n) = Some n"
| "data_securityScore d = None"

fun data_metrics :: "response_data \<Rightarrow> quality_metrics option" where
  "data_metrics (QualityMetrics m n) = Some m"
| "data_metrics d = None"

fun data_qualityScore :: "response_data \<Rightarrow> number option" where
  "data_qualityScore (QualityMetrics m n) = Some n"
| "data_qualityScore d = None"

fun data_analysisId :: "response_data \<Rightarrow> string option" where
  "data_analysisId (AnalysisRun i r) = Some i"
| "data_analysisId d = None"

fun data_results :: "response_data \<Rightarrow> analysis_results option" where
  "data_results (AnalysisRun i r) = Some r"
| "data_results d = None"

definition getSecurityScan :: "(string \<Rightarrow> error + response_data) \<Rightarrow> security_scan result" where
  "getSecurityScan api =
     (case api ''/security/scan'' of
        Inl e \<Rightarrow> Failure (error_message e)
      | Inr d \<Rightarrow>
          Success \<lparr>vulnerabilities = data_vulnerabilities d,
                   securityScore = data_securityScore d\<rparr>)"

definition getQualityMetrics :: "(string \<Rightarrow> error + response_data) \<Rightarrow> quality_result result" where
  "getQualityMetrics api =
     (case api ''/quality/metrics'' of
        Inl e \<Rightarrow> Failure (error_message e)
      | Inr d \<Rightarrow> Success \<lparr>metrics = data_metrics d, qualityScore = data_qualityScore d\<rparr>)"

definition AI_analyzeCode :: "(string \<Rightarrow> error + response_data) \<Rightarrow> analysis_result result" where
  "AI_analyzeCode api =
     (case api ''/analysis/run'' of
        Inl e \<Rightarrow> Failure (error_message e)
      | Inr d \<Rightarrow> Success \<lparr>analysisId = data_analysisId d, results = data_results d\<rparr>)"

subsection \<open>Recommendations and the report\<close>

record recommendation =
  category :: string
  priority :: string
  message :: string
  actions :: "string list"

definition security_recommendation :: "nat \<Rightarrow> recommendation" where
  "security_recommendation n =
     \<lparr>category = ''Security'',
      priority = ''High'',
      message = ''Found '' @ show_nat n
                @ '' security vulnerabilities. Immediate attention required.'',
      actions =
        [''Update dependencies with known vulnerabilities'',
         ''Implement input validation'',
         ''Add authentication middleware'']\<rparr>"

definition quality_recommendation :: recommendation where
  "quality_recommendation =
     \<lparr>category = ''Code Quality'',
      priority = ''Medium'',
      message = ''Code quality score below threshold. Consider refactoring.'',
      actions = [''Add more unit tests'', ''Reduce code complexity'', ''Improve documentation'']\<rparr>"

definition performance_recommendation :: recommendation where
  "performance_recommendation =
     \<lparr>category = ''Performance'',
      priority = ''Low'',
      message = ''Optimize bundle size and loading performance.'',
      actions = [''Implement code splitting'', ''Optimize images'', ''Add lazy loading'']\<rparr>"

text \<open>
  \<^verbatim>\<open>securityScan.success && securityScan.vulnerabilities?.length > 0\<close> and
  \<^verbatim>\<open>qualityMetrics.success && qualityMetrics.qualityScore < 8\<close>: a comparison with
  undefined is false.
\<close>

fun has_vulnerabilities :: "security_scan result \<Rightarrow> nat option" where
  "has_vulnerabilities (Success s) =
     (case vulnerabilities s of
        None \<Rightarrow> None
      | Some vs \<Rightarrow> if length vs > 0 then Some (length vs) else None)"
| "has_vulnerabilities (Failure m) = None"

fun below_threshold :: "quality_result result \<Rightarrow> bool" where
  "below_threshold (Success q) = (case qualityScore q of None \<Rightarrow> False | Some n \<Rightarrow> n < 8)"
| "below_threshold (Failure m) = False"

definition generateRecommendations ::
  "security_scan result \<Rightarrow> quality_result result \<Rightarrow> recommendation list" where
  "generateRecommendations securityScan qualityMetrics =
     (let recommendations = [];
          recommendations =
            (case has_vulnerabilities securityScan of
               Some n \<Rightarrow> recommendations @ [security_recommendation n]
             | None \<Rightarrow> recommendations);
          recommendations =
            (if below_threshold qualityMetrics
             then recommendations @ [quality_recommendation] else recommendations);
          recommendations = recommendations @ [performance_recommendation]
      in recommendations)"

text \<open>A section of the report: the result of the request, or \<^verbatim>\<open>{ error: ... }\<close>.\<close>

datatype 'a report_section =
    Populated 'a
  | Error_marker string

fun section_of :: "'a result \<Rightarrow> string \<Rightarrow> 'a report_section" where
  "section_of (Success v) marker = Populated v"
| "section_of (Failure m) marker = Error_marker marker"

record report =
  timestamp :: string
  project :: obj
  security :: "security_scan report_section"
  quality :: "quality_result report_section"
  analysis :: "analysis_result report_section"
  recommendations :: "recommendation list"

text \<open>
  The constructor: \<^verbatim>\<open>this.projectConfig = { projectName: ..., ...projectConfig }\<close>.
\<close>

definition projectConfig_of :: "obj \<Rightarrow> obj" where
  "projectConfig_of projectConfig =
     spread
       [(''projectName'', JStr ''FER-PE''),
        (''repository'', JStr ''github.com/MyNameIsBof/lab3''),
        (''language'', JStr ''javascript''),
        (''framework'', JStr ''react'')]
       projectConfig"

text \<open>
  The body of \<^verbatim>\<open>generateReport()\<close> over the function that answers an endpoint. No
  statement of the \<^verbatim>\<open>try\<close> block throws (each request has caught its own error), so
  the outer \<^verbatim>\<open>catch\<close> has no branch here.
\<close>

definition generateReport_with ::
  "(string \<Rightarrow> error + response_data) \<Rightarrow> date \<Rightarrow> obj \<Rightarrow> report result" where
  "generateReport_with api now projectConfig =
     (let securityScan = getSecurityScan api;
          qualityMetrics = getQualityMetrics api;
          analysisResults = AI_analyzeCode api
      in Success
           \<lparr>timestamp = toISOString now,
            project = projectConfig,
            security = section_of securityScan ''Failed to fetch security data'',
            quality = section_of qualityMetrics ''Failed to fetch quality data'',
            analysis = section_of analysisResults ''Failed to run analysis'',
            recommendations = generateRecommendations securityScan qualityMetrics\<rparr>)"

definition AI_generateReport :: "ambient \<Rightarrow> obj \<Rightarrow> report result" where
  "AI_generateReport amb projectConfig =
     generateReport_with (simulateApiCall amb) (report_date amb) projectConfig"

section \<open>Reading what was persisted\<close>

text \<open>An own property of a value: that of an object, none on any other value.\<close>

fun own :: "json \<Rightarrow> string \<Rightarrow> json option" where
  "own (JObj kvs) k = map_of kvs k"
| "own v k = None"

definition nested :: "json \<Rightarrow> string \<Rightarrow> string \<Rightarrow> json option" where
  "nested v outer inner = (case own v outer of Some w \<Rightarrow> own w inner | None \<Rightarrow> None)"

definition persisted_prop :: "fs \<Rightarrow> string \<Rightarrow> json option" where
  "persisted_prop files k =
     (case files configFile of
        Some (Serialized v) \<Rightarrow> own v k
      | _ \<Rightarrow> None)"

definition persisted_nested :: "fs \<Rightarrow> string \<Rightarrow> string \<Rightarrow> json option" where
  "persisted_nested files outer inner =
     (case persisted_prop files outer of Some w \<Rightarrow> own w inner | None \<Rightarrow> None)"

section \<open>The notions of the specification\<close>

text \<open>
  The merge as the specification words it: shallow, except that \<^verbatim>\<open>rules\<close> and
  \<^verbatim>\<open>thresholds\<close> are merged key by key.
\<close>

definition keywise :: "string \<Rightarrow> obj \<Rightarrow> obj \<Rightarrow> obj \<Rightarrow> obj" where
  "keywise k defaults overrides merged =
     (case (map_of defaults k, map_of overrides k) of
        (Some (JObj d), Some (JObj ov)) \<Rightarrow> AList.update k (JObj (spread d ov)) merged
      | _ \<Rightarrow> merged)"

definition spec_merge :: "obj \<Rightarrow> obj \<Rightarrow> obj" where
  "spec_merge defaults overrides =
     keywise ''thresholds'' defaults overrides
       (keywise ''rules'' defaults overrides (spread defaults overrides))"

text \<open>The invariant of the persisted configuration: connected implies a connection time.\<close>

definition config_invariant :: "fs \<Rightarrow> bool" where
  "config_invariant files =
     (persisted_prop files ''connected'' = Some (JBool True)
        \<longrightarrow> persisted_prop files ''connectedAt'' \<noteq> None)"

text \<open>
  The file systems reachable from a project without a config file through init and
  connect, whatever their outcome.
\<close>

inductive reachable :: "fs \<Rightarrow> bool" where
  fresh: "files configFile = None \<Longrightarrow> reachable files"
| init: "reachable files \<Longrightarrow> initProject options files = (r, files') \<Longrightarrow> reachable files'"
| connect:
    "reachable files \<Longrightarrow> connectRepository options now files = (r, files')
       \<Longrightarrow> reachable files'"

text \<open>
  Overrides that do not set \<^verbatim>\<open>connected\<close> to \<^verbatim>\<open>true\<close> without setting
  \<^verbatim>\<open>connectedAt\<close> as well, and the file systems reachable when init is run with
  such overrides only. (In the list of overrides a later entry of a name wins, hence the
  reversal; a JavaScript object has each name once.)
\<close>

definition stamped :: "obj \<Rightarrow> bool" where
  "stamped options =
     (map_of (rev options) ''connected'' = Some (JBool True)
        \<longrightarrow> map_of (rev options) ''connectedAt'' \<noteq> None)"

inductive reachable_stamped :: "fs \<Rightarrow> bool" where
  fresh: "files configFile = None \<Longrightarrow> reachable_stamped files"
| init:
    "reachable_stamped files \<Longrightarrow> stamped options \<Longrightarrow> initProject options files = (r, files')
       \<Longrightarrow> reachable_stamped files'"
| connect:
    "reachable_stamped files \<Longrightarrow> connectRepository options now files = (r, files')
       \<Longrightarrow> reachable_stamped files'"

section \<open>The tokens parseOptions reads\<close>

text \<open>
  The positions at which the loop of \<^verbatim>\<open>parseOptions\<close> reads a flag of a given name,
  and the value it gives the flag read at a position.
\<close>

definition flag_value :: "string list \<Rightarrow> nat \<Rightarrow> json" where
  "flag_value args i =
     (if i + 1 < length args \<and> args ! (i + 1) \<noteq> [] then JStr (args ! (i + 1)) else JBool True)"

definition is_flag_for :: "string list \<Rightarrow> string \<Rightarrow> nat \<Rightarrow> bool" where
  "is_flag_for args key i = (startsWith (args ! i) ''--'' \<and> drop 2 (args ! i) = key)"

definition flag_positions :: "string list \<Rightarrow> string \<Rightarrow> nat list" where
  "flag_positions args key = filter (\<lambda>i. even i \<and> is_flag_for args key i) [0..<length args]"

section \<open>The draws of the service\<close>

text \<open>The draws of \<^verbatim>\<open>Math.random()\<close> that reach a value of the report.\<close>

definition draws :: "ambient \<Rightarrow> number list" where
  "draws amb =
     [vulnerabilities_draw amb, securityScore_draw amb, maintainabilityIndex_draw amb,
      cyclomaticComplexity_draw amb, testCoverage_draw amb, codeSmells_draw amb,
      technicalDebt_draw amb, qualityScore_draw amb, issuesFound_draw amb]"

section \<open>Instants, draws and requests used in the examples\<close>

definition example_date :: date where
  "example_date =
     \<lparr>year = 2024, month = 5, day = 17, hours = 9, minutes = 30, seconds = 0,
      milliseconds = 250\<rparr>"

definition example_clock :: clock where
  "example_clock = \<lparr>date_now = example_date, ms_now = 1715938200250\<rparr>"

definition example_ambient :: ambient where
  "example_ambient =
     \<lparr>vulnerabilities_draw = 0.75,
      securityScore_draw = 0.5,
      maintainabilityIndex_draw = 0.25,
      cyclomaticComplexity_draw = 0.5,
      testCoverage_draw = 0.5,
      codeSmells_draw = 0.5,
      technicalDebt_draw = 0.5,
      qualityScore_draw = 0.25,
      issuesFound_draw = 0.5,
      report_date = example_date,
      request_ms = 1715938200250\<rparr>"

text \<open>A project whose config file says it is connected.\<close>

definition connected_project :: fs where
  "connected_project =
     Map.empty(configFile \<mapsto> Serialized (JObj [(''connected'', JBool True)]))"

text \<open>A service whose security request throws while the other two answer.\<close>

definition failing_security :: "string \<Rightarrow> error + response_data" where
  "failing_security endpoint =
     (if endpoint = ''/security/scan'' then Inl (Error ''Network Error'')
      else simulateApiCall example_ambient endpoint)"

section \<open>Auxiliary facts\<close>

lemma map_of_spread:
  "map_of (spread a b) = map_of a ++ map_of (rev b)"
  unfolding spread_def
proof (induction b arbitrary: a)
  case Nil
  show ?case by simp
next
  case (Cons kv b)
  obtain k v where kv: "kv = (k, v)" by (cases kv)
  have "map_of (foldl (\<lambda>acc kv. AList.update (fst kv) (snd kv) acc) a (kv # b))
        = map_of (AList.update k v a) ++ map_of (rev b)"
    using Cons.IH by (simp add: kv)
  also have "\<dots> = map_of a ++ map_of (rev (kv # b))"
    by (rule ext) (simp add: kv update_conv' map_add_def split: option.splits)
  finally show ?case .
qed

lemma map_of_assign:
  "map_of (assign k v ob) key = (if k = key \<and> key \<noteq> ''__proto__'' then Some v else map_of ob key)"
  by (simp add: assign_def update_conv')

lemma toISOString_nonempty: "toISOString d \<noteq> []"
  by (simp add: toISOString_def)

lemma toISOString_example: "toISOString example_date = ''2024-05-17T09:30:00.250Z''"
  by code_simp

lemma snd_exit_status: "snd (exit_status r) = snd r"
  by (cases "fst r") (simp_all add: exit_status_def)

lemma gate_closed:
  assumes "files configFile = None \<or>
           (\<exists>v. files configFile = Some (Serialized v) \<and> v \<noteq> JNull \<and>
                get_prop v ''connected'' \<noteq> Inr (Some (JBool True)))"
  shows "gate files = Inl (Error not_connected)"
  using assms
proof (elim disjE exE conjE)
  assume "files configFile = None"
  then show ?thesis by (simp add: gate_def isProjectConnected_def)
next
  fix v
  assume "files configFile = Some (Serialized v)" "v \<noteq> JNull"
    "get_prop v ''connected'' \<noteq> Inr (Some (JBool True))"
  then show ?thesis
    by (cases v) (simp_all add: gate_def isProjectConnected_def)
qed

lemma gate_open:
  assumes "files configFile = Some (Serialized (JObj config))"
    and "map_of config ''connected'' = Some (JBool True)"
  shows "gate files = Inr ()"
  using assms by (simp add: gate_def isProjectConnected_def)

lemma connect_on_object:
  assumes "files configFile = Some (Serialized (JObj config))"
  shows "connectRepository options now files =
           (Inr (), files(configFile \<mapsto> Serialized (JObj
              (AList.update ''connectedAt'' (JStr (toISOString now))
                 (AList.update ''connected'' (JBool True) config)))))"
  using assms by (simp add: connectRepository_def writeFileSync_def)

lemma connect_absent:
  assumes "files configFile = None"
  shows "connectRepository options now files = (Inl (Error not_initialized), files)"
  using assms by (simp add: connectRepository_def)

lemma parseOptions_from_done:
  "length args \<le> i \<Longrightarrow> parseOptions_from i args options = options"
  by (subst parseOptions_from.simps) simp

lemma parseOptions_type:
  "parseOptions [''--type'', t] = [(''type'', if t = [] then JBool True else JStr t)]"
  by (simp add: parseOptions_def parseOptions_from.simps [of 0] parseOptions_from_done
        startsWith_def assign_def)

section \<open>The gate of scan, analyze and report\<close>

text \<open>
  Claim C1. When the config file is absent, or holds a configuration (any value but
  null) whose \<^verbatim>\<open>connected\<close> property is not \<^verbatim>\<open>true\<close>, each of scan, analyze and report
  throws the error \<^verbatim>\<open>Repository not connected. Run "connect" first.\<close> and leaves the
  file system as it was: no report file is written and the config file is not touched.
  The message contains the words \<^verbatim>\<open>not connected\<close>.
\<close>

theorem scan_analyze_report_gated:
  assumes "files configFile = None \<or>
           (\<exists>v. files configFile = Some (Serialized v) \<and> v \<noteq> JNull \<and>
                get_prop v ''connected'' \<noteq> Inr (Some (JBool True)))"
  shows "runScan options files = (Inl (Error not_connected), files) \<and>
         CLI_analyzeCode options files = (Inl (Error not_connected), files) \<and>
         CLI_generateReport options now ms files = (Inl (Error not_connected), files) \<and>
         take 13 (drop 11 not_connected) = ''not connected''"
  using assms gate_closed [of files]
  by (simp add: runScan_def CLI_analyzeCode_def CLI_generateReport_def not_connected_def)

theorem scan_analyze_report_gated_witness:
  "runScan [(''type'', JStr ''secrets'')] (snd (initProject [] Map.empty))
     = (Inl (Error not_connected), snd (initProject [] Map.empty)) \<and>
   CLI_analyzeCode [] Map.empty = (Inl (Error not_connected), Map.empty) \<and>
   CLI_generateReport [(''format'', JStr ''json'')] example_date 1715938200250 Map.empty
     = (Inl (Error not_connected), Map.empty)"
proof -
  let ?f = "snd (initProject [] Map.empty)"
  have h: "?f configFile = None \<or>
           (\<exists>v. ?f configFile = Some (Serialized v) \<and> v \<noteq> JNull \<and>
                get_prop v ''connected'' \<noteq> Inr (Some (JBool True)))"
    by (simp add: initProject_def writeFileSync_def spread_def defaultConfig_def)
  have e: "(Map.empty :: fs) configFile = None \<or>
           (\<exists>v. (Map.empty :: fs) configFile = Some (Serialized v) \<and> v \<noteq> JNull \<and>
                get_prop v ''connected'' \<noteq> Inr (Some (JBool True)))"
    by simp
  show ?thesis
    using scan_analyze_report_gated [of ?f, OF h] scan_analyze_report_gated [of Map.empty, OF e]
    by simp
qed

text \<open>
  A file that holds null, or a text that is not JSON, is not a configuration: the gate
  then throws a TypeError or a SyntaxError instead. Whatever the gate throws, the three
  operations throw it and write nothing.
\<close>

lemma gate_failure_writes_nothing:
  assumes "gate files = Inl e"
  shows "runScan options files = (Inl e, files) \<and>
         CLI_analyzeCode options files = (Inl e, files) \<and>
         CLI_generateReport options now ms files = (Inl e, files)"
  using assms by (simp add: runScan_def CLI_analyzeCode_def CLI_generateReport_def)

lemma gate_on_null:
  assumes "files configFile = Some (Serialized JNull)"
  shows "\<exists>m. gate files = Inl (TypeError m)"
  using assms by (simp add: gate_def isProjectConnected_def)

section \<open>connect before init\<close>

text \<open>
  Claim C2. When no config file exists, connect throws the error
  \<^verbatim>\<open>Project not initialized. Run "init" first.\<close> and the file system is unchanged: no
  config file is written. Through the dispatcher the process ends with status 1.
\<close>

theorem connect_requires_init:
  assumes "files configFile = None"
  shows "connectRepository options now files = (Inl (Error not_initialized), files) \<and>
         run (node # script # ''connect'' # rest) clk files = (1, files)"
  using assms by (simp add: connectRepository_def run_def exit_status_def)

theorem connect_requires_init_witness:
  "connectRepository [(''repo'', JStr ''github.com/u/r'')] example_date Map.empty
     = (Inl (Error not_initialized), Map.empty) \<and>
   run [''node'', ''codeant-demo.js'', ''connect''] example_clock Map.empty = (1, Map.empty)"
  using connect_requires_init
          [of Map.empty "[(''repo'', JStr ''github.com/u/r'')]" example_date
              "''node''" "''codeant-demo.js''" "[]" example_clock]
  by simp

section \<open>The merge of init\<close>

text \<open>
  Claim C3, as stated, fails. \<^verbatim>\<open>initProject\<close> spreads the overrides over the defaults
  and nothing else: an override of \<^verbatim>\<open>rules\<close> replaces the whole mapping. After
  \<^verbatim>\<open>initProject({ rules: { security: false } })\<close> the persisted rules have no
  \<^verbatim>\<open>quality\<close> key, which the default has and the key-by-key merge of the
  specification keeps. From the command line, \<^verbatim>\<open>init --rules strict\<close> replaces the
  mapping by a string.
\<close>

theorem init_merge_counterexample:
  "persisted_nested
     (snd (initProject [(''rules'', JObj [(''security'', JBool False)])] Map.empty))
     ''rules'' ''quality'' = None \<and>
   nested (JObj defaultConfig) ''rules'' ''quality'' = Some (JBool True) \<and>
   nested (JObj (spec_merge defaultConfig [(''rules'', JObj [(''security'', JBool False)])]))
     ''rules'' ''quality'' = Some (JBool True) \<and>
   persisted_nested
     (snd (run [''node'', ''codeant-demo.js'', ''init'', ''--rules'', ''strict'']
             example_clock Map.empty))
     ''rules'' ''quality'' = None"
proof -
  have "parseOptions (drop 3 [''node'', ''codeant-demo.js'', ''init'', ''--rules'', ''strict''])
        = [(''rules'', JStr ''strict'')]"
    by (simp add: parseOptions_def parseOptions_from.simps [of 0] parseOptions_from_done
          startsWith_def assign_def)
  then have "run [''node'', ''codeant-demo.js'', ''init'', ''--rules'', ''strict'']
               example_clock Map.empty
             = exit_status (initProject [(''rules'', JStr ''strict'')] Map.empty)"
    unfolding run_def by simp
  then show ?thesis
    by (simp add: snd_exit_status nested_def persisted_nested_def persisted_prop_def
          initProject_def writeFileSync_def configFile_def spread_def defaultConfig_def
          spec_merge_def keywise_def)
qed

text \<open>
  Claim C3, amended. For every override set, init succeeds and persists the default
  record with the overridden top-level keys changed (the override wins, a key the
  defaults do not have is added) and no other key altered; the rest of the file system
  is untouched. The merge is shallow throughout: the value of \<^verbatim>\<open>rules\<close> or
  \<^verbatim>\<open>thresholds\<close> is the default mapping when the key is not overridden and the
  override's value, whole, when it is.
\<close>

theorem init_merge_shallow:
  "initProject options files
     = (Inr (), files(configFile \<mapsto> Serialized (JObj (spread defaultConfig options)))) \<and>
   (\<forall>k. map_of (spread defaultConfig options) k =
          (case map_of (rev options) k of
             Some v \<Rightarrow> Some v
           | None \<Rightarrow> map_of defaultConfig k))"
  by (simp add: initProject_def writeFileSync_def map_of_spread map_add_def)

theorem init_merge_shallow_witness:
  "persisted_prop (snd (initProject [(''projectName'', JStr ''X'')] Map.empty)) ''projectName''
     = Some (JStr ''X'') \<and>
   persisted_nested (snd (initProject [(''projectName'', JStr ''X'')] Map.empty))
     ''rules'' ''quality'' = Some (JBool True) \<and>
   persisted_prop (snd (initProject [(''rules'', JStr ''strict'')] Map.empty)) ''rules''
     = Some (JStr ''strict'')"
  using init_merge_shallow [of "[(''projectName'', JStr ''X'')]" Map.empty]
    init_merge_shallow [of "[(''rules'', JStr ''strict'')]" Map.empty]
  by (simp add: persisted_prop_def persisted_nested_def defaultConfig_def)

section \<open>The invariant of the persisted configuration\<close>

lemma reachable_stamped_shape:
  assumes "reachable_stamped files"
  shows "files configFile = None \<or>
         (\<exists>config. files configFile = Some (Serialized (JObj config)) \<and>
            (map_of config ''connected'' = Some (JBool True)
               \<longrightarrow> map_of config ''connectedAt'' \<noteq> None))"
  using assms
proof (induction rule: reachable_stamped.induct)
  case (fresh files)
  then show ?case by simp
next
  case (init files options r files')
  have "files' = files(configFile \<mapsto> Serialized (JObj (spread defaultConfig options)))"
    using init.hyps(3) by (simp add: initProject_def writeFileSync_def)
  moreover have "map_of (spread defaultConfig options) ''connected'' = Some (JBool True)
                   \<longrightarrow> map_of (spread defaultConfig options) ''connectedAt'' \<noteq> None"
    using init.hyps(2)
    by (auto simp: stamped_def map_of_spread map_add_def defaultConfig_def
          split: option.splits)
  ultimately show ?case by simp
next
  case (connect files options now r files')
  from connect.IH show ?case
  proof (elim disjE exE conjE)
    assume "files configFile = None"
    then show ?thesis using connect.hyps(2) by (simp add: connect_absent)
  next
    fix config
    assume c: "files configFile = Some (Serialized (JObj config))"
    show ?thesis
      using connect.hyps(2) c by (auto simp: connect_on_object update_conv')
  qed
qed

lemma reachable_shape:
  assumes "reachable files"
  shows "files configFile = None \<or>
         (\<exists>config. files configFile = Some (Serialized (JObj config)))"
  using assms
proof (induction rule: reachable.induct)
  case (fresh files)
  then show ?case by simp
next
  case (init files options r files')
  then show ?case by (auto simp: initProject_def writeFileSync_def)
next
  case (connect files options now r files')
  from connect.IH show ?case
  proof (elim disjE exE)
    assume "files configFile = None"
    then show ?thesis using connect.hyps(2) by (simp add: connect_absent)
  next
    fix config
    assume c: "files configFile = Some (Serialized (JObj config))"
    show ?thesis
      using connect.hyps(2) c by (auto simp: connect_on_object)
  qed
qed

text \<open>
  Claim C4, as stated, fails. init copies every override into the file, so
  \<^verbatim>\<open>init --connected\<close> persists \<^verbatim>\<open>connected: true\<close> without a connection time; the
  gate of scan, analyze and report is then open although connect never ran.
\<close>

theorem init_connected_counterexample:
  "reachable (snd (run [''node'', ''codeant-demo.js'', ''init'', ''--connected'']
                    example_clock Map.empty)) \<and>
   \<not> config_invariant (snd (run [''node'', ''codeant-demo.js'', ''init'', ''--connected'']
                              example_clock Map.empty)) \<and>
   isProjectConnected (snd (run [''node'', ''codeant-demo.js'', ''init'', ''--connected'']
                              example_clock Map.empty)) = Inr True"
proof -
  have p: "parseOptions (drop 3 [''node'', ''codeant-demo.js'', ''init'', ''--connected''])
           = [(''connected'', JBool True)]"
    by (simp add: parseOptions_def parseOptions_from.simps [of 0] parseOptions_from_done
          startsWith_def assign_def)
  have r: "run [''node'', ''codeant-demo.js'', ''init'', ''--connected''] example_clock Map.empty
           = exit_status (initProject [(''connected'', JBool True)] Map.empty)"
    unfolding run_def p by simp
  have "reachable (snd (initProject [(''connected'', JBool True)] Map.empty))"
    by (rule reachable.init
          [of Map.empty _ "fst (initProject [(''connected'', JBool True)] Map.empty)"])
       (simp_all add: reachable.fresh)
  moreover have "\<not> config_invariant (snd (initProject [(''connected'', JBool True)] Map.empty))"
    by (simp add: config_invariant_def persisted_prop_def initProject_def writeFileSync_def
          spread_def defaultConfig_def)
  moreover have "isProjectConnected (snd (initProject [(''connected'', JBool True)] Map.empty))
                 = Inr True"
    by (simp add: isProjectConnected_def initProject_def writeFileSync_def
          spread_def defaultConfig_def)
  ultimately show ?thesis
    unfolding r by (simp add: snd_exit_status)
qed

text \<open>
  Claim C4, amended. Every persisted configuration reachable from a project without a
  config file through connect and through init with overrides that do not set
  \<^verbatim>\<open>connected\<close> to \<^verbatim>\<open>true\<close> without a \<^verbatim>\<open>connectedAt\<close> satisfies the invariant
  that \<^verbatim>\<open>connected = true\<close> implies \<^verbatim>\<open>connectedAt\<close> is set. After a successful
  connect from any state reachable through init and connect, whatever the overrides of
  init were, the persisted configuration has \<^verbatim>\<open>connected = true\<close> and a non-empty
  \<^verbatim>\<open>connectedAt\<close> timestamp, and so satisfies the invariant.
\<close>

theorem connect_establishes_invariant:
  "(reachable_stamped files \<longrightarrow> config_invariant files) \<and>
   (reachable files \<and> connectRepository options now files = (Inr (), files') \<longrightarrow>
      config_invariant files' \<and>
      (\<exists>stamp.
          persisted_prop files' ''connected'' = Some (JBool True) \<and>
          persisted_prop files' ''connectedAt'' = Some (JStr stamp) \<and> stamp \<noteq> []))"
proof -
  have first: "config_invariant files" if "reachable_stamped files"
    using reachable_stamped_shape [OF that]
    by (auto simp: config_invariant_def persisted_prop_def)
  have second: "\<exists>stamp.
          persisted_prop files' ''connected'' = Some (JBool True) \<and>
          persisted_prop files' ''connectedAt'' = Some (JStr stamp) \<and> stamp \<noteq> []"
    if a: "reachable files \<and> connectRepository options now files = (Inr (), files')"
  proof -
    from a consider "files configFile = None"
      | config where "files configFile = Some (Serialized (JObj config))"
      using reachable_shape [of files] by auto
    then show ?thesis
    proof cases
      case 1
      then show ?thesis using a by (simp add: connect_absent)
    next
      case 2
      then show ?thesis
        using a
        by (auto simp: connect_on_object persisted_prop_def update_conv' toISOString_nonempty)
    qed
  qed
  have third: "config_invariant files'"
    if "reachable files \<and> connectRepository options now files = (Inr (), files')"
    using second [OF that] by (auto simp: config_invariant_def)
  show ?thesis using first second third by blast
qed

text \<open>
  The example runs \<^verbatim>\<open>init\<close> and reads the invariant, then runs
  \<^verbatim>\<open>init --connected\<close>, where the invariant fails, and \<^verbatim>\<open>connect\<close> after it, which
  restores it.
\<close>

theorem connect_establishes_invariant_witness:
  "reachable_stamped (snd (initProject [] Map.empty)) \<and>
   config_invariant (snd (initProject [] Map.empty)) \<and>
   reachable (snd (initProject [(''connected'', JBool True)] Map.empty)) \<and>
   \<not> config_invariant (snd (initProject [(''connected'', JBool True)] Map.empty)) \<and>
   fst (connectRepository [] example_date
          (snd (initProject [(''connected'', JBool True)] Map.empty))) = Inr () \<and>
   config_invariant
     (snd (connectRepository [] example_date
             (snd (initProject [(''connected'', JBool True)] Map.empty)))) \<and>
   (\<exists>stamp.
       persisted_prop
         (snd (connectRepository [] example_date
                 (snd (initProject [(''connected'', JBool True)] Map.empty))))
         ''connected'' = Some (JBool True) \<and>
       persisted_prop
         (snd (connectRepository [] example_date
                 (snd (initProject [(''connected'', JBool True)] Map.empty))))
         ''connectedAt'' = Some (JStr stamp) \<and> stamp \<noteq> [])"
proof -
  let ?f = "snd (initProject [] Map.empty)"
  let ?u = "snd (initProject [(''connected'', JBool True)] Map.empty)"
  let ?g = "snd (connectRepository [] example_date ?u)"
  have rs: "reachable_stamped ?f"
    by (rule reachable_stamped.init [of Map.empty "[]" "fst (initProject [] Map.empty)"])
       (simp_all add: reachable_stamped.fresh stamped_def)
  have ru: "reachable ?u"
    by (rule reachable.init
          [of Map.empty _ "fst (initProject [(''connected'', JBool True)] Map.empty)"])
       (simp_all add: reachable.fresh)
  have nu: "\<not> config_invariant ?u"
    by (simp add: config_invariant_def persisted_prop_def initProject_def writeFileSync_def
          spread_def defaultConfig_def)
  have f: "fst (connectRepository [] example_date ?u) = Inr ()"
    by (simp add: connectRepository_def initProject_def writeFileSync_def)
  then have c: "connectRepository [] example_date ?u = (Inr (), ?g)"
    by (simp add: prod_eq_iff)
  have "config_invariant ?f"
    using connect_establishes_invariant [of ?f "[]" example_date ?g] rs by blast
  moreover have "config_invariant ?g \<and> (\<exists>stamp.
       persisted_prop ?g ''connected'' = Some (JBool True) \<and>
       persisted_prop ?g ''connectedAt'' = Some (JStr stamp) \<and> stamp \<noteq> [])"
    using connect_establishes_invariant [of ?u "[]" example_date ?g] ru c by blast
  ultimately show ?thesis using rs ru nu f by blast
qed

section \<open>parseOptions\<close>

lemma stride_positions:
  assumes "i < n"
  shows "filter (\<lambda>j. even (j - i) \<and> F j) [i..<n]
         = (if F i then [i] else []) @ filter (\<lambda>j. even (j - (i + 2)) \<and> F j) [i + 2..<n]"
proof -
  have tail: "filter (\<lambda>j. even (j - i) \<and> F j) [Suc i..<n]
              = filter (\<lambda>j. even (j - (i + 2)) \<and> F j) [i + 2..<n]"
  proof (cases "Suc i < n")
    case True
    have "filter (\<lambda>j. even (j - i) \<and> F j) [Suc (Suc i)..<n]
          = filter (\<lambda>j. even (j - (i + 2)) \<and> F j) [Suc (Suc i)..<n]"
      by (rule filter_cong) auto
    then show ?thesis using True by (simp add: upt_conv_Cons)
  next
    case False
    then show ?thesis by simp
  qed
  show ?thesis using assms tail by (simp add: upt_conv_Cons)
qed

lemma parseOptions_from_lookup:
  "map_of (parseOptions_from i args acc) key =
     (if key = ''__proto__'' \<or>
         filter (\<lambda>j. even (j - i) \<and> is_flag_for args key j) [i..<length args] = []
      then map_of acc key
      else Some (flag_value args
             (last (filter (\<lambda>j. even (j - i) \<and> is_flag_for args key j) [i..<length args]))))"
proof (induction i args acc rule: parseOptions_from.induct)
  case (1 i args acc)
  show ?case
  proof (cases "i < length args")
    case False
    then show ?thesis by (simp add: parseOptions_from_done)
  next
    case True
    define acc' where "acc' =
       (if startsWith (args ! i) ''--'' then
          (let key = drop 2 (args ! i);
               v = (if i + 1 < length args \<and> args ! (i + 1) \<noteq> []
                    then JStr (args ! (i + 1)) else JBool True)
           in assign key v acc)
        else acc)"
    define ps where
      "ps = filter (\<lambda>j. even (j - i) \<and> is_flag_for args key j) [i..<length args]"
    define ps' where
      "ps' = filter (\<lambda>j. even (j - (i + 2)) \<and> is_flag_for args key j) [i + 2..<length args]"
    have unfold: "parseOptions_from i args acc = parseOptions_from (i + 2) args acc'"
      unfolding acc'_def using True by (subst parseOptions_from.simps) simp
    have ih: "map_of (parseOptions_from (i + 2) args acc') key =
                (if key = ''__proto__'' \<or> ps' = [] then map_of acc' key
                 else Some (flag_value args (last ps')))"
      unfolding acc'_def ps'_def using "1.IH" [OF True] .
    have acc: "map_of acc' key =
                 (if is_flag_for args key i \<and> key \<noteq> ''__proto__''
                  then Some (flag_value args i) else map_of acc key)"
      unfolding acc'_def
      by (auto simp: is_flag_for_def flag_value_def map_of_assign Let_def)
    have ps: "ps = (if is_flag_for args key i then [i] else []) @ ps'"
      unfolding ps_def ps'_def by (rule stride_positions [OF True])
    have "map_of (parseOptions_from i args acc) key =
            (if key = ''__proto__'' \<or> ps = [] then map_of acc key
             else Some (flag_value args (last ps)))"
      unfolding unfold ih acc ps by simp
    then show ?thesis unfolding ps_def .
  qed
qed

text \<open>
  What the loop reads, for every argument list: the tokens at the even positions only.
  A token there that begins with \<^verbatim>\<open>--\<close> is a flag and gets the token after it, or
  \<^verbatim>\<open>true\<close> when there is none or it is empty; the last reading of a name stays. A
  flag at an odd position is not read.
\<close>

lemma parseOptions_reads_even_positions:
  "map_of (parseOptions args) key =
     (if key = ''__proto__'' \<or> flag_positions args key = [] then None
      else Some (flag_value args (last (flag_positions args key))))"
  using parseOptions_from_lookup [of 0 args "[]" key]
  by (simp add: parseOptions_def flag_positions_def)

text \<open>
  Claim C8. Option parsing is to map each flag token to the value token that follows
  it, or to \<^verbatim>\<open>true\<close> when no value follows, and the option bag is to hold exactly
  these pairs. The code does so when every flag without a value stands last:
  \<^verbatim>\<open>--type secrets --fix\<close> gives \<^verbatim>\<open>{ type: 'secrets', fix: true }\<close> and a scan of
  the one category. It misses the flag without a value that another token follows. The
  index moves by two whatever was read, so for \<^verbatim>\<open>--fix --type secrets\<close> the bag is
  \<^verbatim>\<open>{ fix: '--type' }\<close>: the flag \<^verbatim>\<open>--type\<close> is taken as a value and is never read
  as a flag, \<^verbatim>\<open>type\<close> has no entry, and the scan runs over all three categories.
\<close>

theorem parseOptions_valueless_flag_bug:
  "parseOptions [''--fix'', ''--type'', ''secrets''] = [(''fix'', JStr ''--type'')] \<and>
   map_of (parseOptions [''--fix'', ''--type'', ''secrets'']) ''type'' = None \<and>
   parseOptions [''--type'', ''secrets'', ''--fix'']
     = [(''type'', JStr ''secrets''), (''fix'', JBool True)] \<and>
   map fst (case fst (runScan (parseOptions [''--fix'', ''--type'', ''secrets''])
                        connected_project) of
              Inr out \<Rightarrow> sections out
            | Inl e \<Rightarrow> [])
     = [JStr ''dependencies'', JStr ''vulnerabilities'', JStr ''secrets''] \<and>
   map fst (case fst (runScan (parseOptions [''--type'', ''secrets'', ''--fix''])
                        connected_project) of
              Inr out \<Rightarrow> sections out
            | Inl e \<Rightarrow> [])
     = [JStr ''secrets'']"
  by code_simp

section \<open>The report of the command-line tool\<close>

text \<open>
  Claim C9. For every connected configuration, every option bag and every clock, the
  report operation of the tool succeeds and builds the same record: the constant scores
  (overall 8.3, security 8.5, quality 8.2, performance 7.8, accessibility 9.1) and
  section contents, with the timestamp as its only field that depends on the instant.
  The record is written to the report file, named after the second clock reading, in the
  JSON format and to no file otherwise. Neither the persisted configuration nor the
  options reach the record.
\<close>

theorem report_is_constant:
  assumes "files configFile = Some (Serialized (JObj config))"
    and "map_of config ''connected'' = Some (JBool True)"
  shows "CLI_generateReport options now ms files
           = (Inr (reportData now),
              if map_of options ''format'' = Some (JStr ''json'') \<or> truthy (map_of options ''json'')
              then files(reportFile ms \<mapsto> Serialized (reportData now)) else files) \<and>
         (\<exists>rest. \<forall>instant.
             reportData instant = JObj ((''timestamp'', JStr (toISOString instant)) # rest)) \<and>
         own (reportData now) ''overall_score'' = Some (JNum 8.3) \<and>
         nested (reportData now) ''security'' ''score'' = Some (JNum 8.5) \<and>
         nested (reportData now) ''quality'' ''score'' = Some (JNum 8.2) \<and>
         nested (reportData now) ''performance'' ''score'' = Some (JNum 7.8) \<and>
         nested (reportData now) ''accessibility'' ''score'' = Some (JNum 9.1)"
proof -
  have "CLI_generateReport options now ms files
           = (Inr (reportData now),
              if map_of options ''format'' = Some (JStr ''json'') \<or> truthy (map_of options ''json'')
              then files(reportFile ms \<mapsto> Serialized (reportData now)) else files)"
    using gate_open [of files config] assms
    by (simp add: CLI_generateReport_def writeFileSync_def)
  moreover have "\<exists>rest. \<forall>instant.
             reportData instant = JObj ((''timestamp'', JStr (toISOString instant)) # rest)"
    unfolding reportData_def by blast
  moreover have "own (reportData now) ''overall_score'' = Some (JNum 8.3)"
    by (simp add: reportData_def)
  moreover have "nested (reportData now) ''security'' ''score'' = Some (JNum 8.5)"
    "nested (reportData now) ''quality'' ''score'' = Some (JNum 8.2)"
    "nested (reportData now) ''performance'' ''score'' = Some (JNum 7.8)"
    "nested (reportData now) ''accessibility'' ''score'' = Some (JNum 9.1)"
    by (simp_all add: reportData_def nested_def)
  ultimately show ?thesis by blast
qed

theorem report_is_constant_witness:
  "CLI_generateReport [(''format'', JStr ''json'')] example_date 1715938200250
       (Map.empty(configFile \<mapsto> Serialized (JObj [(''projectName'', JStr ''X''),
                                                   (''connected'', JBool True)])))
     = (Inr (reportData example_date),
        (Map.empty(configFile \<mapsto> Serialized (JObj [(''projectName'', JStr ''X''),
                                                   (''connected'', JBool True)])))
          (reportFile 1715938200250 \<mapsto> Serialized (reportData example_date))) \<and>
   nested (reportData example_date) ''security'' ''score'' = Some (JNum 8.5)"
  using report_is_constant
          [of "Map.empty(configFile \<mapsto> Serialized (JObj [(''projectName'', JStr ''X''),
                                                           (''connected'', JBool True)]))"
              "[(''projectName'', JStr ''X''), (''connected'', JBool True)]"
              "[(''format'', JStr ''json'')]" example_date 1715938200250]
  by simp

section \<open>An unknown category\<close>

text \<open>
  Claim C10. On a connected project, for every string \<open>t\<close> that is not one of the
  scan categories, \<^verbatim>\<open>scan --type t\<close> ends with exit status 0 and without an error: the
  loop runs once, for the value of \<^verbatim>\<open>--type\<close>, and the \<^verbatim>\<open>switch\<close> prints no finding
  for it. The same holds for \<^verbatim>\<open>analyze --type t\<close> and the analysis categories. (The
  value of \<^verbatim>\<open>--type\<close> is \<open>t\<close>, or \<^verbatim>\<open>true\<close> when \<open>t\<close> is the empty string.)
\<close>

theorem unknown_type_succeeds:
  assumes "files configFile = Some (Serialized (JObj config))"
    and "map_of config ''connected'' = Some (JBool True)"
  shows "(t \<notin> {''dependencies'', ''vulnerabilities'', ''secrets''} \<longrightarrow>
            run [node, script, ''scan'', ''--type'', t] clk files = (0, files) \<and>
            (\<exists>out. runScan (parseOptions [''--type'', t]) files = (Inr out, files) \<and>
                   sections out = [(if t = [] then JBool True else JStr t, [])])) \<and>
         (t \<notin> {''quality'', ''performance'', ''maintainability'', ''accessibility''} \<longrightarrow>
            run [node, script, ''analyze'', ''--type'', t] clk files = (0, files) \<and>
            (\<exists>out. CLI_analyzeCode (parseOptions [''--type'', t]) files = (Inr out, files) \<and>
                   sections out = [(if t = [] then JBool True else JStr t, [])]))"
  using gate_open [of files config] assms
  by (simp add: run_def exit_status_def runScan_def CLI_analyzeCode_def parseOptions_type)

theorem unknown_type_succeeds_witness:
  "run [''node'', ''codeant-demo.js'', ''scan'', ''--type'', ''licenses''] example_clock
       (Map.empty(configFile \<mapsto> Serialized (JObj [(''connected'', JBool True)])))
     = (0, Map.empty(configFile \<mapsto> Serialized (JObj [(''connected'', JBool True)]))) \<and>
   run [''node'', ''codeant-demo.js'', ''analyze'', ''--type'', ''secrets''] example_clock
       (Map.empty(configFile \<mapsto> Serialized (JObj [(''connected'', JBool True)])))
     = (0, Map.empty(configFile \<mapsto> Serialized (JObj [(''connected'', JBool True)])))"
  using unknown_type_succeeds
          [of "Map.empty(configFile \<mapsto> Serialized (JObj [(''connected'', JBool True)]))"
              "[(''connected'', JBool True)]" "''licenses''"
              "''node''" "''codeant-demo.js''" example_clock]
    unknown_type_succeeds
          [of "Map.empty(configFile \<mapsto> Serialized (JObj [(''connected'', JBool True)]))"
              "[(''connected'', JBool True)]" "''secrets''"
              "''node''" "''codeant-demo.js''" example_clock]
  by simp

section \<open>The recommendations of the service\<close>

lemma generateRecommendations_shape:
  "generateRecommendations securityScan qualityMetrics
     = (case has_vulnerabilities securityScan of
          Some n \<Rightarrow> [security_recommendation n] | None \<Rightarrow> [])
       @ (if below_threshold qualityMetrics then [quality_recommendation] else [])
       @ [performance_recommendation]"
  by (simp add: generateRecommendations_def split: option.splits)

text \<open>
  Claim C5. For every pair of results of the security scan and of the quality metrics,
  the recommendation list ends with the Performance recommendation, of priority Low and
  with its three fixed actions; the entries before it are the conditional Security and
  Code Quality recommendations only.
\<close>

theorem performance_always_recommended:
  "\<exists>conditional.
     generateRecommendations securityScan qualityMetrics
       = conditional @ [performance_recommendation] \<and>
     set (map category conditional) \<subseteq> {''Security'', ''Code Quality''} \<and>
     category performance_recommendation = ''Performance'' \<and>
     priority performance_recommendation = ''Low'' \<and>
     actions performance_recommendation
       = [''Implement code splitting'', ''Optimize images'', ''Add lazy loading'']"
proof -
  let ?conditional =
    "(case has_vulnerabilities securityScan of
        Some n \<Rightarrow> [security_recommendation n] | None \<Rightarrow> [])
     @ (if below_threshold qualityMetrics then [quality_recommendation] else [])"
  have "generateRecommendations securityScan qualityMetrics
          = ?conditional @ [performance_recommendation]"
    by (simp add: generateRecommendations_shape)
  moreover have "set (map category ?conditional) \<subseteq> {''Security'', ''Code Quality''}"
    by (auto simp: security_recommendation_def quality_recommendation_def split: option.splits)
  moreover have "category performance_recommendation = ''Performance'' \<and>
     priority performance_recommendation = ''Low'' \<and>
     actions performance_recommendation
       = [''Implement code splitting'', ''Optimize images'', ''Add lazy loading'']"
    by (simp add: performance_recommendation_def)
  ultimately show ?thesis by blast
qed

section \<open>The report of the service\<close>

lemma getSecurityScan_section:
  "section_of (getSecurityScan api) marker =
     (case api ''/security/scan'' of
        Inl e \<Rightarrow> Error_marker marker
      | Inr d \<Rightarrow> Populated \<lparr>vulnerabilities = data_vulnerabilities d,
                             securityScore = data_securityScore d\<rparr>)"
  by (simp add: getSecurityScan_def split: sum.splits)

lemma getQualityMetrics_section:
  "section_of (getQualityMetrics api) marker =
     (case api ''/quality/metrics'' of
        Inl e \<Rightarrow> Error_marker marker
      | Inr d \<Rightarrow> Populated \<lparr>metrics = data_metrics d, qualityScore = data_qualityScore d\<rparr>)"
  by (simp add: getQualityMetrics_def split: sum.splits)

lemma analyzeCode_section:
  "section_of (AI_analyzeCode api) marker =
     (case api ''/analysis/run'' of
        Inl e \<Rightarrow> Error_marker marker
      | Inr d \<Rightarrow> Populated \<lparr>analysisId = data_analysisId d, results = data_results d\<rparr>)"
  by (simp add: AI_analyzeCode_def split: sum.splits)

text \<open>
  Claim C6. Whatever the three requests do, \<^verbatim>\<open>generateReport\<close> returns a successful
  report. Each section is decided by its own request alone: it carries the error marker
  when that request threw and the result of the request when it answered, so a failed
  request leaves the other two sections populated as usual.
\<close>

theorem report_survives_failed_request:
  "\<exists>r. generateReport_with api now projectConfig = Success r \<and>
       security r =
         (case api ''/security/scan'' of
            Inl e \<Rightarrow> Error_marker ''Failed to fetch security data''
          | Inr d \<Rightarrow> Populated \<lparr>vulnerabilities = data_vulnerabilities d,
                                 securityScore = data_securityScore d\<rparr>) \<and>
       quality r =
         (case api ''/quality/metrics'' of
            Inl e \<Rightarrow> Error_marker ''Failed to fetch quality data''
          | Inr d \<Rightarrow> Populated \<lparr>metrics = data_metrics d, qualityScore = data_qualityScore d\<rparr>) \<and>
       analysis r =
         (case api ''/analysis/run'' of
            Inl e \<Rightarrow> Error_marker ''Failed to run analysis''
          | Inr d \<Rightarrow> Populated \<lparr>analysisId = data_analysisId d, results = data_results d\<rparr>) \<and>
       performance_recommendation \<in> set (recommendations r)"
  unfolding generateReport_with_def Let_def
  by (simp add: getSecurityScan_section getQualityMetrics_section analyzeCode_section
        generateRecommendations_shape)

theorem report_survives_failed_request_witness:
  "\<exists>r q a. generateReport_with failing_security example_date (projectConfig_of []) = Success r \<and>
       security r = Error_marker ''Failed to fetch security data'' \<and>
       quality r = Populated q \<and> qualityScore q = Some 8 \<and>
       analysis r = Populated a \<and>
       recommendations r = [performance_recommendation]"
proof -
  obtain r where
    r: "generateReport_with failing_security example_date (projectConfig_of []) = Success r"
    and s: "security r =
         (case failing_security ''/security/scan'' of
            Inl e \<Rightarrow> Error_marker ''Failed to fetch security data''
          | Inr d \<Rightarrow> Populated \<lparr>vulnerabilities = data_vulnerabilities d,
                                 securityScore = data_securityScore d\<rparr>)"
    and q: "quality r =
         (case failing_security ''/quality/metrics'' of
            Inl e \<Rightarrow> Error_marker ''Failed to fetch quality data''
          | Inr d \<Rightarrow> Populated \<lparr>metrics = data_metrics d, qualityScore = data_qualityScore d\<rparr>)"
    and a: "analysis r =
         (case failing_security ''/analysis/run'' of
            Inl e \<Rightarrow> Error_marker ''Failed to run analysis''
          | Inr d \<Rightarrow> Populated \<lparr>analysisId = data_analysisId d, results = data_results d\<rparr>)"
    using report_survives_failed_request [of failing_security example_date "projectConfig_of []"]
    by blast
  have rec: "recommendations r = [performance_recommendation]"
    using r
    by (auto simp: generateReport_with_def generateRecommendations_def getSecurityScan_def
          getQualityMetrics_def failing_security_def simulateApiCall_def example_ambient_def
          Math_floor_def)
  show ?thesis
    using r s q a rec
    by (simp add: failing_security_def simulateApiCall_def example_ambient_def Math_floor_def)
qed

text \<open>The requests of the service itself always answer: none of its sections is a marker.\<close>

lemma own_requests_answer:
  "\<exists>r s q a. AI_generateReport amb projectConfig = Success r \<and>
       security r = Populated s \<and> quality r = Populated q \<and> analysis r = Populated a"
  by (simp add: AI_generateReport_def generateReport_with_def getSecurityScan_def
        getQualityMetrics_def AI_analyzeCode_def simulateApiCall_def)

section \<open>Randomness and the clock\<close>

lemma AI_generateReport_timestamp:
  "(case AI_generateReport amb projectConfig of
      Success r \<Rightarrow> timestamp r
    | Failure m \<Rightarrow> []) = toISOString (report_date amb)"
  by (simp add: AI_generateReport_def generateReport_with_def Let_def)

text \<open>
  Claim C7, as stated, fails. \<^verbatim>\<open>generateReport()\<close> has no parameter: the service draws
  from the global \<^verbatim>\<open>Math.random\<close> and reads the clock, which are the ambient argument
  of the model. With every draw pinned, two calls on the same configuration at two
  instants return two different reports, since the timestamp is read from the clock.
\<close>

theorem report_reads_the_clock_counterexample:
  "draws (example_ambient\<lparr>report_date := example_date\<lparr>seconds := 5\<rparr>\<rparr>) = draws example_ambient \<and>
   AI_generateReport (example_ambient\<lparr>report_date := example_date\<lparr>seconds := 5\<rparr>\<rparr>) []
     \<noteq> AI_generateReport example_ambient []"
proof -
  let ?later = "example_ambient\<lparr>report_date := example_date\<lparr>seconds := 5\<rparr>\<rparr>"
  have stamps: "toISOString (example_date\<lparr>seconds := 5\<rparr>) \<noteq> toISOString example_date"
    by code_simp
  have "AI_generateReport ?later [] \<noteq> AI_generateReport example_ambient []"
  proof
    assume "AI_generateReport ?later [] = AI_generateReport example_ambient []"
    then have "toISOString (report_date ?later) = toISOString (report_date example_ambient)"
      using AI_generateReport_timestamp [of ?later "[]"]
        AI_generateReport_timestamp [of example_ambient "[]"]
      by simp
    with stamps show False by (simp add: example_ambient_def)
  qed
  then show ?thesis by (simp add: draws_def)
qed

text \<open>
  Claim C7, amended. \<^verbatim>\<open>generateReport\<close> takes no random source; it draws from the
  global \<^verbatim>\<open>Math.random\<close> and reads the clock. Two calls on the same configuration
  whose draws coincide both succeed and return reports with the same project, security
  section, quality section, recommendations and analysis results; the timestamp and the
  analysis identifier are the clock readings of each call.
\<close>

theorem report_determined_by_draws_and_clock:
  assumes "draws a = draws b"
  shows "\<exists>ra rb sa sb qa qb res.
           AI_generateReport a projectConfig = Success ra \<and>
           AI_generateReport b projectConfig = Success rb \<and>
           project ra = project rb \<and>
           security ra = Populated sa \<and> security rb = Populated sb \<and> sa = sb \<and>
           quality ra = Populated qa \<and> quality rb = Populated qb \<and> qa = qb \<and>
           recommendations ra = recommendations rb \<and>
           analysis ra = Populated \<lparr>analysisId = Some (''analysis_'' @ show_int (request_ms a)),
                                    results = Some res\<rparr> \<and>
           analysis rb = Populated \<lparr>analysisId = Some (''analysis_'' @ show_int (request_ms b)),
                                    results = Some res\<rparr> \<and>
           timestamp ra = toISOString (report_date a) \<and>
           timestamp rb = toISOString (report_date b)"
  using assms
  by (simp add: draws_def AI_generateReport_def generateReport_with_def getSecurityScan_def
        getQualityMetrics_def AI_analyzeCode_def simulateApiCall_def
        generateMockVulnerabilities_def generateMockQualityMetrics_def
        generateMockAnalysisResults_def)

theorem report_determined_by_draws_and_clock_witness:
  "draws (example_ambient\<lparr>report_date := example_date\<lparr>seconds := 5\<rparr>, request_ms := 7\<rparr>)
     = draws example_ambient \<and>
   (\<exists>ra rb.
      AI_generateReport
        (example_ambient\<lparr>report_date := example_date\<lparr>seconds := 5\<rparr>, request_ms := 7\<rparr>)
        (projectConfig_of []) = Success ra \<and>
      AI_generateReport example_ambient (projectConfig_of []) = Success rb \<and>
      security ra = security rb \<and> quality ra = quality rb \<and>
      recommendations ra = recommendations rb)"
proof -
  let ?a = "example_ambient\<lparr>report_date := example_date\<lparr>seconds := 5\<rparr>, request_ms := 7\<rparr>"
  have h: "draws ?a = draws example_ambient"
    by (simp add: draws_def)
  show ?thesis
    using h report_determined_by_draws_and_clock [of ?a example_ambient "projectConfig_of []"]
    by force
qed

end
